theory Spec2Isabelle
  imports Complex_Main "HOL-Library.Multiset"
begin

section \<open>Data model\<close>

text \<open>
  The coordinator and the worker exchange JSON. A decoded JSON value (what
  \<^verbatim>\<open>await request.json()\<close> yields for a field) is a \<open>pyval\<close>. A Python float is
  carried as a real number: the only float of the program is the literal \<^verbatim>\<open>109.0\<close>,
  which is stored and returned but never computed with.
\<close>

datatype pyval =
    PNone
  | PBool bool
  | PInt int
  | PFloat real
  | PStr string
  | PList "pyval list"
  | PDict "(string \<times> pyval) list"

text \<open>Exceptions are values. Every constructor is a subclass of Python's \<^verbatim>\<open>Exception\<close>.\<close>

datatype error =
    KeyError string
  | TypeError
  | AttributeError
  | ValueError
  | OSError
  | UnicodeDecodeError
  | UnicodeEncodeError

text \<open>\<^verbatim>\<open>web.Response(status=..., text=...)\<close>.\<close>

datatype response = Response (status_code: int) (body_text: string)

text \<open>
  A Python \<^verbatim>\<open>dict\<close> keeps its keys in insertion order, and assigning to a key that is
  present keeps that key's position. It is an association list with distinct keys:
  \<open>map_of\<close> reads it, \<open>dict_set\<close> is \<^verbatim>\<open>d[k] = v\<close>, \<open>dict_pop\<close> is
  \<^verbatim>\<open>d.pop(k, None)\<close>.
\<close>

fun dict_set :: "'k \<Rightarrow> 'v \<Rightarrow> ('k \<times> 'v) list \<Rightarrow> ('k \<times> 'v) list" where
  "dict_set k v [] = [(k, v)]"
| "dict_set k v ((k', v') # kvs) =
     (if k' = k then (k, v) # kvs else (k', v') # dict_set k v kvs)"

definition dict_pop :: "'k \<Rightarrow> ('k \<times> 'v) list \<Rightarrow> ('k \<times> 'v) list" where
  "dict_pop k kvs = filter (\<lambda>kv. fst kv \<noteq> k) kvs"

text \<open>
  \<^verbatim>\<open>value[key]\<close> with a string key, on a decoded JSON value: only a dict can be
  subscripted with a string; a missing key raises \<^verbatim>\<open>KeyError\<close>, every other kind of
  value raises \<^verbatim>\<open>TypeError\<close>.
\<close>

fun subscript :: "pyval \<Rightarrow> string \<Rightarrow> error + pyval" where
  "subscript (PDict kvs) k = (case map_of kvs k of None \<Rightarrow> Inl (KeyError k) | Some v \<Rightarrow> Inr v)"
| "subscript _ k = Inl TypeError"

text \<open>
  What \<^verbatim>\<open>self.results\<close> holds under a key. \<^verbatim>\<open>receive_results\<close> stores lists of results
  under worker ids; \<^verbatim>\<open>process_file\<close> rebinds \<^verbatim>\<open>self.results\<close> to a dict of numbers.
\<close>

datatype stored =
    ResultList "pyval list"
  | IntVal int
  | FloatVal real

text \<open>
  The HTTP request of \<^verbatim>\<open>send_work\<close>: a POST to
  \<^verbatim>\<open>http://localhost:{self.port}/process\<close> with the JSON body
  \<^verbatim>\<open>{"filepath", "start", "size"}\<close>. The port of the URL is the coordinator's own; the
  worker the chunk is meant for is neither in the URL nor in the body.
\<close>

record request =
  url_port :: int
  body_filepath :: pyval
  body_start :: int
  body_size :: int

text \<open>
  The state of a \<^verbatim>\<open>Coordinator\<close>. \<open>workers\<close> maps a worker id to the value of its
  \<^verbatim>\<open>"status"\<close> entry (the inner dict has that key only). Worker ids are strings, as
  \<^verbatim>\<open>Worker.__init__\<close> declares them. \<open>sent\<close> is not a field of the class: it keeps,
  in order, the requests that \<^verbatim>\<open>send_work\<close> has posted. Each method is modelled as run
  to completion: the interleaving of coroutines at \<^verbatim>\<open>await\<close> is outside the model.
\<close>

record coordinator =
  workers :: "(string \<times> pyval) list"
  results :: "(string \<times> stored) list"
  port :: int
  file_chunks :: "(int \<times> int) list"
  sent :: "request list"

definition Coordinator :: "int \<Rightarrow> coordinator" where
  "Coordinator p = \<lparr>workers = [], results = [], port = p, file_chunks = [], sent = []\<rparr>"

section \<open>The world outside\<close>

text \<open>
  Every \<^verbatim>\<open>print\<close> of the modelled methods, with the values its f-string formats.
\<close>

datatype message =
    WorkerRegistered string
  | ReceivedResults string pyval
  | HealthUpdated string pyval
  | NoWorkersAvailable
  | DistributingWork "string list"
  | WorkerNotHealthy string
  | WorkSent string
  | FailedToSendWork string error
  | HandlingFailure string
  | ErrorProcessingChunk error

text \<open>
  What the program calls and does not define. \<open>os_getsize\<close> is \<^verbatim>\<open>os.path.getsize\<close>:
  the size it returns for an argument, or the exception it raises. \<open>print_out\<close> is
  \<^verbatim>\<open>print\<close>: \<open>None\<close> when the message is written, the exception otherwise (a standard
  output that is closed, or that cannot encode the text). \<open>http_post\<close> is the
  \<^verbatim>\<open>session.post\<close> of \<^verbatim>\<open>send_work\<close>: the status of the response, or the exception
  raised.
\<close>

record world =
  os_getsize :: "pyval \<Rightarrow> error + int"
  print_out :: "message \<Rightarrow> error option"
  http_post :: "request \<Rightarrow> error + int"

text \<open>
  A method that raises leaves the coordinator in the state it has at the raise: the
  outcome of a method is \<open>Inl\<close> of the exception and that state, or \<open>Inr\<close> of what it
  returns. The server answers a handler that raised with status 500 and goes on with
  that state.
\<close>

fun state_after :: "(error \<times> coordinator) + (coordinator \<times> response) \<Rightarrow> coordinator" where
  "state_after (Inl (e, c)) = c"
| "state_after (Inr (c, r)) = c"

fun state_of :: "(error \<times> coordinator) + coordinator \<Rightarrow> coordinator" where
  "state_of (Inl (e, c)) = c"
| "state_of (Inr c) = c"

section \<open>Coordinator: the worker-facing handlers\<close>

definition register_worker ::
  "world \<Rightarrow> coordinator \<Rightarrow> string \<Rightarrow> (error \<times> coordinator) + (coordinator \<times> response)" where
  "register_worker w c worker_id =
     (let c1 = c\<lparr>workers := dict_set worker_id (PStr ''healthy'') (workers c)\<rparr> in
      case print_out w (WorkerRegistered worker_id) of
        Some e \<Rightarrow> Inl (e, c1)
      | None \<Rightarrow> Inr (c1, Response 200 ''Worker registered''))"

text \<open>The end of \<^verbatim>\<open>receive_results\<close>, after the result has been stored.\<close>

definition results_received ::
  "world \<Rightarrow> coordinator \<Rightarrow> string \<Rightarrow> pyval \<Rightarrow> (error \<times> coordinator) + (coordinator \<times> response)" where
  "results_received w c1 worker_id result =
     (case print_out w (ReceivedResults worker_id result) of
        Some e \<Rightarrow> Inl (e, c1)
      | None \<Rightarrow> Inr (c1, Response 200 ''Results received''))"

text \<open>\<^verbatim>\<open>receive_results\<close>; \<^verbatim>\<open>.append\<close> exists on a list only.\<close>

definition receive_results ::
  "world \<Rightarrow> coordinator \<Rightarrow> string \<Rightarrow> pyval \<Rightarrow> (error \<times> coordinator) + (coordinator \<times> response)" where
  "receive_results w c worker_id result =
     (case map_of (results c) worker_id of
        Some (ResultList rs) \<Rightarrow>
          results_received w
            (c\<lparr>results := dict_set worker_id (ResultList (rs @ [result])) (results c)\<rparr>)
            worker_id result
      | Some _ \<Rightarrow> Inl (AttributeError, c)
      | None \<Rightarrow>
          results_received w
            (c\<lparr>results := dict_set worker_id (ResultList [result]) (results c)\<rparr>)
            worker_id result)"

text \<open>
  \<^verbatim>\<open>update_worker_health\<close>: the \<^verbatim>\<open>print\<close> is inside the \<^verbatim>\<open>if\<close>, after the status
  has been set.
\<close>

definition update_worker_health ::
  "world \<Rightarrow> coordinator \<Rightarrow> string \<Rightarrow> pyval \<Rightarrow> (error \<times> coordinator) + (coordinator \<times> response)" where
  "update_worker_health w c worker_id status =
     (if map_of (workers c) worker_id \<noteq> None
      then let c1 = c\<lparr>workers := dict_set worker_id status (workers c)\<rparr> in
           case print_out w (HealthUpdated worker_id status) of
             Some e \<Rightarrow> Inl (e, c1)
           | None \<Rightarrow> Inr (c1, Response 200 ''Health updated'')
      else Inr (c, Response 200 ''Health updated''))"

text \<open>
  A sequence of submit requests, each a worker id and a result, handled one after the
  other.
\<close>

fun receive_all :: "world \<Rightarrow> coordinator \<Rightarrow> (string \<times> pyval) list \<Rightarrow> coordinator" where
  "receive_all w c [] = c"
| "receive_all w c ((worker_id, result) # rest) =
     receive_all w (state_after (receive_results w c worker_id result)) rest"

section \<open>Coordinator: planning and distributing chunks\<close>

text \<open>
  \<^verbatim>\<open>range(i, stop, step)\<close> for a positive step, as the loop it is. The source calls it
  with the constant step \<^verbatim>\<open>1024 * 1024\<close> only.
\<close>

function py_range :: "int \<Rightarrow> int \<Rightarrow> int \<Rightarrow> int list" where
  "py_range i stop step =
     (if 0 < step \<and> i < stop then i # py_range (i + step) stop step else [])"
  by pat_completeness auto
termination
  by (relation "measure (\<lambda>(i, stop, step). nat (stop - i))") auto

declare py_range.simps [simp del]

text \<open>
  The list comprehension of \<^verbatim>\<open>distribute_work\<close>, from offset \<open>i\<close> on; the plan of
  the file starts at offset 0.
\<close>

definition chunks_from :: "int \<Rightarrow> int \<Rightarrow> int \<Rightarrow> (int \<times> int) list" where
  "chunks_from chunk_sz file_size i =
     map (\<lambda>j. (j, min chunk_sz (file_size - j))) (py_range i file_size chunk_sz)"

definition plan_chunks :: "int \<Rightarrow> int \<Rightarrow> (int \<times> int) list" where
  "plan_chunks chunk_sz file_size = chunks_from chunk_sz file_size 0"

definition chunk_size :: int where
  "chunk_size = 1024 * 1024"

text \<open>
  The \<^verbatim>\<open>except Exception as e\<close> of \<^verbatim>\<open>send_work\<close>: its \<^verbatim>\<open>print\<close> is not guarded.
\<close>

definition send_failed ::
  "world \<Rightarrow> coordinator \<Rightarrow> string \<Rightarrow> error \<Rightarrow> (error \<times> coordinator) + coordinator" where
  "send_failed w c1 worker_id e =
     (case print_out w (FailedToSendWork worker_id e) of
        Some e' \<Rightarrow> Inl (e', c1)
      | None \<Rightarrow> Inr c1)"

text \<open>
  \<^verbatim>\<open>send_work\<close>. The worker id decides whether a request is posted, and appears in
  what is printed; the request itself goes to the coordinator's own port. The
  \<^verbatim>\<open>print\<close> after a response with status 200 is inside the \<^verbatim>\<open>try\<close>.
\<close>

definition send_work ::
  "world \<Rightarrow> coordinator \<Rightarrow> string \<Rightarrow> pyval \<Rightarrow> int \<Rightarrow> int \<Rightarrow> (error \<times> coordinator) + coordinator" where
  "send_work w c worker_id filepath start sz =
     (if map_of (workers c) worker_id = None \<or>
         map_of (workers c) worker_id \<noteq> Some (PStr ''healthy'')
      then (case print_out w (WorkerNotHealthy worker_id) of
              Some e \<Rightarrow> Inl (e, c)
            | None \<Rightarrow> Inr c)
      else
        let req = \<lparr>url_port = port c, body_filepath = filepath,
                   body_start = start, body_size = sz\<rparr>;
            c1 = c\<lparr>sent := sent c @ [req]\<rparr>
        in case http_post w req of
             Inl e \<Rightarrow> send_failed w c1 worker_id e
           | Inr status \<Rightarrow>
               if status = 200
               then (case print_out w (WorkSent worker_id) of
                       Some e \<Rightarrow> send_failed w c1 worker_id e
                     | None \<Rightarrow> Inr c1)
               else Inr c1)"

text \<open>\<^verbatim>\<open>worker_ids[index % len(worker_ids)]\<close>, for a list that is not empty.\<close>

definition assigned_worker :: "string list \<Rightarrow> nat \<Rightarrow> string" where
  "assigned_worker worker_ids index = worker_ids ! (index mod length worker_ids)"

text \<open>The \<^verbatim>\<open>for index, (start, size) in enumerate(self.file_chunks)\<close> loop.\<close>

fun send_chunks ::
  "world \<Rightarrow> coordinator \<Rightarrow> string list \<Rightarrow> pyval \<Rightarrow> nat \<Rightarrow> (int \<times> int) list
     \<Rightarrow> (error \<times> coordinator) + coordinator" where
  "send_chunks w c worker_ids filepath index [] = Inr c"
| "send_chunks w c worker_ids filepath index ((start, sz) # chunks) =
     (case send_work w c (assigned_worker worker_ids index) filepath start sz of
        Inl ec \<Rightarrow> Inl ec
      | Inr c1 \<Rightarrow> send_chunks w c1 worker_ids filepath (Suc index) chunks)"

definition distribute_work ::
  "world \<Rightarrow> coordinator \<Rightarrow> pyval \<Rightarrow> (error \<times> coordinator) + coordinator" where
  "distribute_work w c filepath =
     (case os_getsize w filepath of
        Inl e \<Rightarrow> Inl (e, c)
      | Inr file_size \<Rightarrow>
          let c1 = c\<lparr>file_chunks := plan_chunks chunk_size file_size\<rparr> in
          if workers c1 = []
          then (case print_out w NoWorkersAvailable of
                  Some e \<Rightarrow> Inl (e, c1)
                | None \<Rightarrow> Inr c1)
          else (case print_out w (DistributingWork (map fst (workers c1))) of
                  Some e \<Rightarrow> Inl (e, c1)
                | None \<Rightarrow> send_chunks w c1 (map fst (workers c1)) filepath 0 (file_chunks c1)))"

text \<open>
  Two notions to state what \<^verbatim>\<open>distribute_work\<close> does. A worker is healthy when
  \<^verbatim>\<open>send_work\<close> lets a request through for it: it is registered and its status is
  \<^verbatim>\<open>"healthy"\<close>. The chunks requested are the bodies of the requests posted so far, in
  order.
\<close>

definition is_healthy :: "coordinator \<Rightarrow> string \<Rightarrow> bool" where
  "is_healthy c worker_id \<longleftrightarrow> map_of (workers c) worker_id = Some (PStr ''healthy'')"

definition requested :: "coordinator \<Rightarrow> (pyval \<times> int \<times> int) list" where
  "requested c = map (\<lambda>r. (body_filepath r, body_start r, body_size r)) (sent c)"

section \<open>Coordinator: worker failure\<close>

text \<open>The \<^verbatim>\<open>for result in failed_worker_results\<close> loop of \<^verbatim>\<open>handle_worker_failure\<close>.\<close>

fun redistribute ::
  "world \<Rightarrow> coordinator \<Rightarrow> pyval list \<Rightarrow> (error \<times> coordinator) + coordinator" where
  "redistribute w c [] = Inr c"
| "redistribute w c (result # rest) =
     (case subscript result ''filepath'' of
        Inl e \<Rightarrow> Inl (e, c)
      | Inr filepath \<Rightarrow>
          (case distribute_work w c filepath of
             Inl ec \<Rightarrow> Inl ec
           | Inr c' \<Rightarrow> redistribute w c' rest))"

text \<open>
  \<^verbatim>\<open>handle_worker_failure\<close>: the \<^verbatim>\<open>print\<close>, then
  \<^verbatim>\<open>self.results.get(worker_id, [])\<close>, then the pop, then the loop; a number cannot be
  iterated over.
\<close>

definition handle_worker_failure ::
  "world \<Rightarrow> coordinator \<Rightarrow> string \<Rightarrow> (error \<times> coordinator) + coordinator" where
  "handle_worker_failure w c worker_id =
     (case print_out w (HandlingFailure worker_id) of
        Some e \<Rightarrow> Inl (e, c)
      | None \<Rightarrow>
          let failed_worker_results =
                (case map_of (results c) worker_id of None \<Rightarrow> ResultList [] | Some v \<Rightarrow> v);
              c1 = c\<lparr>results := dict_pop worker_id (results c)\<rparr>
          in case failed_worker_results of
               ResultList rs \<Rightarrow> redistribute w c1 rs
             | _ \<Rightarrow> Inl (TypeError, c1))"

section \<open>Coordinator: process\_file\<close>

record worker_result =
  wr_total_requests :: int
  wr_malformed_lines :: int
  wr_avg_response_time :: real

record aggregate =
  total_requests :: int
  malformed_lines :: int
  error_count :: int
  avg_response_time :: real

definition initial_aggregate :: aggregate where
  "initial_aggregate =
     \<lparr>total_requests = 0, malformed_lines = 0, error_count = 0, avg_response_time = 109\<rparr>"

definition worker_results :: "worker_result list" where
  "worker_results =
     [\<lparr>wr_total_requests = 1000, wr_malformed_lines = 10, wr_avg_response_time = 109\<rparr>,
      \<lparr>wr_total_requests = 2000, wr_malformed_lines = 20, wr_avg_response_time = 109\<rparr>]"

text \<open>The body of the \<^verbatim>\<open>for res in worker_results\<close> loop.\<close>

definition fold_result :: "aggregate \<Rightarrow> worker_result \<Rightarrow> aggregate" where
  "fold_result agg res =
     agg\<lparr>total_requests := total_requests agg + wr_total_requests res,
         malformed_lines := malformed_lines agg + wr_malformed_lines res\<rparr>"

definition aggregate_results :: "worker_result list \<Rightarrow> aggregate" where
  "aggregate_results rs = foldl fold_result initial_aggregate rs"

text \<open>The aggregate as the dict that \<^verbatim>\<open>self.results\<close> is bound to.\<close>

definition aggregate_items :: "aggregate \<Rightarrow> (string \<times> stored) list" where
  "aggregate_items agg =
     [(''total_requests'', IntVal (total_requests agg)),
      (''malformed_lines'', IntVal (malformed_lines agg)),
      (''error_count'', IntVal (error_count agg)),
      (''avg_response_time'', FloatVal (avg_response_time agg))]"

text \<open>\<^verbatim>\<open>process_file\<close> prints nothing and calls nothing outside.\<close>

definition process_file :: "coordinator \<Rightarrow> pyval \<Rightarrow> coordinator \<times> aggregate" where
  "process_file c filepath =
     (let agg = aggregate_results worker_results
      in (c\<lparr>results := aggregate_items agg\<rparr>, agg))"

section \<open>Worker: process\_chunk\<close>

record metrics =
  lines :: int
  errors :: int
  warnings :: int

text \<open>
  \<^verbatim>\<open>str.splitlines()\<close>: a line ends at a line boundary, \<^verbatim>\<open>\r\n\<close> is one boundary, and
  no empty last line is produced. Characters are the code points below 256; the
  boundaries among them are LF, CR, VT, FF, FS, GS, RS and NEL.
\<close>

definition is_linebreak :: "char \<Rightarrow> bool" where
  "is_linebreak c \<longleftrightarrow>
     c = CHR 0x0A \<or> c = CHR 0x0D \<or> c = CHR 0x0B \<or> c = CHR 0x0C \<or>
     c = CHR 0x1C \<or> c = CHR 0x1D \<or> c = CHR 0x1E \<or> c = CHR 0x85"

fun splitlines_from :: "string \<Rightarrow> string \<Rightarrow> string list" where
  "splitlines_from cur [] = (if cur = [] then [] else [cur])"
| "splitlines_from cur [c] = (if is_linebreak c then [cur] else [cur @ [c]])"
| "splitlines_from cur (c # d # cs) =
     (if c = CHR 0x0D \<and> d = CHR 0x0A then cur # splitlines_from [] cs
      else if is_linebreak c then cur # splitlines_from [] (d # cs)
      else splitlines_from (cur @ [c]) (d # cs))"

definition splitlines :: "string \<Rightarrow> string list" where
  "splitlines s = splitlines_from [] s"

text \<open>\<^verbatim>\<open>sub in s\<close> on strings.\<close>

fun contains :: "string \<Rightarrow> string \<Rightarrow> bool" where
  "contains sub [] = (sub = [])"
| "contains sub (c # cs) = (take (length sub) (c # cs) = sub \<or> contains sub cs)"

text \<open>
  The body of the \<^verbatim>\<open>try\<close> block. \<open>read_range filepath start sz\<close> is the outcome of
  \<^verbatim>\<open>open(filepath, "r")\<close>, \<^verbatim>\<open>file.seek(start)\<close> and \<^verbatim>\<open>file.read(size)\<close>: the text
  read, or the exception of the first call that failed. An exception leaves the block
  with the metrics as they are at the raise.
\<close>

definition count_chunk ::
  "(string \<Rightarrow> int \<Rightarrow> int \<Rightarrow> error + string) \<Rightarrow> metrics \<Rightarrow> string \<Rightarrow> int \<Rightarrow> int
     \<Rightarrow> (error \<times> metrics) + metrics" where
  "count_chunk read_range m filepath start sz =
     (case read_range filepath start sz of
        Inl e \<Rightarrow> Inl (e, m)
      | Inr data \<Rightarrow>
          let ls = splitlines data;
              m1 = m\<lparr>lines := int (length ls)\<rparr>;
              m2 = m1\<lparr>errors := int (length (filter (contains ''ERROR'') ls))\<rparr>;
              m3 = m2\<lparr>warnings := int (length (filter (contains ''WARNING'') ls))\<rparr>
          in Inr m3)"

text \<open>
  \<^verbatim>\<open>process_chunk\<close>. \<open>out\<close> is the worker's \<^verbatim>\<open>print\<close>. The handler of
  \<^verbatim>\<open>except Exception as e\<close> prints the exception and falls through to
  \<^verbatim>\<open>return metrics\<close>; its \<^verbatim>\<open>print\<close> is guarded by nothing, so what it raises reaches
  the caller (\<open>Inl\<close>).
\<close>

definition process_chunk ::
  "(string \<Rightarrow> int \<Rightarrow> int \<Rightarrow> error + string) \<Rightarrow> (message \<Rightarrow> error option)
     \<Rightarrow> string \<Rightarrow> int \<Rightarrow> int \<Rightarrow> error + metrics" where
  "process_chunk read_range out filepath start sz =
     (case count_chunk read_range \<lparr>lines = 0, errors = 0, warnings = 0\<rparr> filepath start sz of
        Inl (e, m) \<Rightarrow>
          (case out (ErrorProcessingChunk e) of
             Some e' \<Rightarrow> Inl e'
           | None \<Rightarrow> Inr m)
      | Inr m \<Rightarrow> Inr m)"

section \<open>The scenario of the tests\<close>

text \<open>
  The log file of the tests, with 3,000,000 bytes, in a file system with no other file.
  A standard output that prints everything, and one that cannot encode what it is given. A world with that
  file system and the printing output, in which every request is answered with status
  404: the coordinator, to whose port the requests go, has no route \<^verbatim>\<open>/process\<close>.
\<close>

definition normal_log :: pyval where
  "normal_log = PStr ''test_vectors/logs/normal.log''"

definition getsize_normal :: "pyval \<Rightarrow> error + int" where
  "getsize_normal p = (if p = normal_log then Inr 3000000 else Inl OSError)"

definition printing :: "message \<Rightarrow> error option" where
  "printing m = None"

definition failing_stdout :: "message \<Rightarrow> error option" where
  "failing_stdout m = Some UnicodeEncodeError"

definition test_world :: world where
  "test_world =
     \<lparr>os_getsize = getsize_normal, print_out = printing, http_post = (\<lambda>r. Inr 404)\<rparr>"

text \<open>
  A coordinator on port 8000 with the three workers of \<^verbatim>\<open>test_cases.py\<close> registered in
  that order; that coordinator after the first worker has been reported unhealthy.
\<close>

definition three_workers :: coordinator where
  "three_workers =
     state_after (register_worker test_world
       (state_after (register_worker test_world
          (state_after (register_worker test_world (Coordinator 8000) ''worker1''))
          ''worker2''))
       ''worker3'')"

definition worker1_unhealthy :: coordinator where
  "worker1_unhealthy =
     state_after (update_worker_health test_world three_workers ''worker1'' (PStr ''unhealthy''))"

text \<open>
  The state after the file has been distributed to the three workers, and that state
  after the first worker has been reported unhealthy: chunk 0 is the chunk of the
  first worker, which has submitted nothing.
\<close>

definition dispatched :: coordinator where
  "dispatched = state_of (distribute_work test_world three_workers normal_log)"

definition worker1_down :: coordinator where
  "worker1_down =
     state_after (update_worker_health test_world dispatched ''worker1'' (PStr ''unhealthy''))"

text \<open>The requests for the three chunks of the file.\<close>

definition chunk0_request :: request where
  "chunk0_request =
     \<lparr>url_port = 8000, body_filepath = normal_log, body_start = 0, body_size = 1048576\<rparr>"

definition chunk1_request :: request where
  "chunk1_request =
     \<lparr>url_port = 8000, body_filepath = normal_log, body_start = 1048576, body_size = 1048576\<rparr>"

definition chunk2_request :: request where
  "chunk2_request =
     \<lparr>url_port = 8000, body_filepath = normal_log, body_start = 2097152, body_size = 902848\<rparr>"

text \<open>
  A result as \<^verbatim>\<open>process_chunk\<close> builds it, a result that names its file, as
  \<^verbatim>\<open>handle_worker_failure\<close> reads it, and two results with the keys that
  \<^verbatim>\<open>process_file\<close> adds up.
\<close>

definition chunk_metrics :: pyval where
  "chunk_metrics = PDict [(''lines'', PInt 3), (''errors'', PInt 1), (''warnings'', PInt 1)]"

definition named_result :: pyval where
  "named_result = PDict [(''filepath'', normal_log)]"

definition result_a :: pyval where
  "result_a = PDict [(''total_requests'', PInt 7), (''malformed_lines'', PInt 1)]"

definition result_b :: pyval where
  "result_b = PDict [(''total_requests'', PInt 5), (''malformed_lines'', PInt 0)]"

section \<open>The chunk plan\<close>

lemma chunks_from_unfold:
  "chunks_from cs fs i =
     (if 0 < cs \<and> i < fs then (i, min cs (fs - i)) # chunks_from cs fs (i + cs) else [])"
  unfolding chunks_from_def by (subst py_range.simps) simp

lemma chunks_from_Nil_iff: "0 < cs \<Longrightarrow> chunks_from cs fs i = [] \<longleftrightarrow> fs \<le> i"
  by (subst chunks_from_unfold) auto

lemma chunks_from_Cons:
  "chunks_from cs fs i \<noteq> [] \<Longrightarrow>
   0 < cs \<and> i < fs \<and>
   chunks_from cs fs i = (i, min cs (fs - i)) # chunks_from cs fs (i + cs)"
  by (subst (asm) chunks_from_unfold, subst chunks_from_unfold) (auto split: if_splits)

lemma chunks_from_hd: "chunks_from cs fs i \<noteq> [] \<Longrightarrow> fst (hd (chunks_from cs fs i)) = i"
  using chunks_from_Cons[of cs fs i] by (cases "chunks_from cs fs i") auto

lemma chunks_from_contiguous:
  "Suc k < length (chunks_from cs fs i) \<Longrightarrow>
   fst (chunks_from cs fs i ! k) + snd (chunks_from cs fs i ! k) = fst (chunks_from cs fs i ! Suc k)"
proof (induction i fs cs arbitrary: k rule: py_range.induct)
  case (1 i stop step)
  from "1.prems" have "chunks_from step stop i \<noteq> []" by auto
  from chunks_from_Cons[OF this]
  have pos: "0 < step \<and> i < stop"
    and unf: "chunks_from step stop i = (i, min step (stop - i)) # chunks_from step stop (i + step)"
    by simp_all
  show ?case
  proof (cases k)
    case 0
    have ne: "chunks_from step stop (i + step) \<noteq> []"
      using "1.prems" unf 0 by auto
    then have "i + step < stop"
      using chunks_from_Cons[OF ne] by simp
    moreover have "fst (hd (chunks_from step stop (i + step))) = i + step"
      using ne by (rule chunks_from_hd)
    ultimately show ?thesis
      using 0 unf ne by (simp add: hd_conv_nth)
  next
    case (Suc k')
    have "Suc k' < length (chunks_from step stop (i + step))"
      using "1.prems" unf Suc by simp
    then show ?thesis
      using "1.IH"[OF pos] unf Suc by simp
  qed
qed

lemma chunks_from_last:
  "chunks_from cs fs i \<noteq> [] \<Longrightarrow>
   fst (last (chunks_from cs fs i)) + snd (last (chunks_from cs fs i)) = fs
   \<and> fst (last (chunks_from cs fs i)) < fs
   \<and> fs \<le> fst (last (chunks_from cs fs i)) + cs
   \<and> cs dvd (fst (last (chunks_from cs fs i)) - i)"
proof (induction i fs cs rule: py_range.induct)
  case (1 i stop step)
  from chunks_from_Cons[OF "1.prems"]
  have pos: "0 < step \<and> i < stop"
    and unf: "chunks_from step stop i = (i, min step (stop - i)) # chunks_from step stop (i + step)"
    by simp_all
  show ?case
  proof (cases "chunks_from step stop (i + step) = []")
    case True
    then have "stop \<le> i + step"
      using pos chunks_from_Nil_iff[of step stop "i + step"] by auto
    then show ?thesis using True unf pos by simp
  next
    case False
    note ih = "1.IH"[OF pos False]
    have "step dvd (fst (last (chunks_from step stop (i + step))) - (i + step))"
      using ih by simp
    then have "step dvd (fst (last (chunks_from step stop (i + step))) - (i + step)) + step"
      by (rule dvd_add) simp
    moreover have "fst (last (chunks_from step stop (i + step))) - (i + step) + step
                     = fst (last (chunks_from step stop (i + step))) - i"
      by simp
    ultimately have "step dvd (fst (last (chunks_from step stop (i + step))) - i)"
      by (simp only:)
    then show ?thesis
      using ih unf False by simp
  qed
qed

lemma chunks_from_bounds:
  "c \<in> set (chunks_from cs fs i) \<Longrightarrow>
   i \<le> fst c \<and> 0 < snd c \<and> snd c \<le> cs \<and> fst c + snd c \<le> fs"
proof (induction i fs cs rule: py_range.induct)
  case (1 i stop step)
  from "1.prems" have "chunks_from step stop i \<noteq> []" by auto
  from chunks_from_Cons[OF this]
  have pos: "0 < step \<and> i < stop"
    and unf: "chunks_from step stop i = (i, min step (stop - i)) # chunks_from step stop (i + step)"
    by simp_all
  from "1.prems" unf
  have "c = (i, min step (stop - i)) \<or> c \<in> set (chunks_from step stop (i + step))"
    by simp
  then show ?case
  proof
    assume "c = (i, min step (stop - i))"
    then show ?thesis using pos by auto
  next
    assume "c \<in> set (chunks_from step stop (i + step))"
    then show ?thesis using "1.IH"[OF pos] pos by auto
  qed
qed

lemma chunks_from_disjoint:
  "j < length (chunks_from cs fs i) \<Longrightarrow> k < j \<Longrightarrow>
   fst (chunks_from cs fs i ! k) + snd (chunks_from cs fs i ! k) \<le> fst (chunks_from cs fs i ! j)"
proof (induction j)
  case 0
  then show ?case by simp
next
  case (Suc j)
  have step: "fst (chunks_from cs fs i ! j) + snd (chunks_from cs fs i ! j)
                = fst (chunks_from cs fs i ! Suc j)"
    using Suc.prems(1) by (rule chunks_from_contiguous)
  show ?case
  proof (cases "k = j")
    case True
    then show ?thesis using step by simp
  next
    case False
    then have "k < j" using Suc.prems(2) by simp
    then have "fst (chunks_from cs fs i ! k) + snd (chunks_from cs fs i ! k)
                 \<le> fst (chunks_from cs fs i ! j)"
      using Suc.IH Suc.prems(1) by simp
    moreover have "0 < snd (chunks_from cs fs i ! j)"
      using chunks_from_bounds[of "chunks_from cs fs i ! j" cs fs i] Suc.prems(1) by simp
    ultimately show ?thesis using step by linarith
  qed
qed

lemma last_length_mod:
  fixes cs :: int
  assumes "0 < cs" "cs dvd j" "j < fs" "fs \<le> j + cs"
  shows "fs - j = (if fs mod cs \<noteq> 0 then fs mod cs else cs)"
proof -
  from assms(2) obtain q where q: "j = cs * q" by (auto simp: dvd_def)
  show ?thesis
  proof (cases "fs = j + cs")
    case True
    then show ?thesis using q by simp
  next
    case False
    then have r: "0 < fs - j" "fs - j < cs" using assms by auto
    have "fs mod cs = (fs - j + cs * q) mod cs" using q by simp
    also have "\<dots> = (fs - j) mod cs" by (simp only: mod_mult_self2)
    also have "\<dots> = fs - j" using r by simp
    finally show ?thesis using r by simp
  qed
qed

text \<open>
  Claim C1. For every file size at least 0 and every chunk size above 0, the plan built
  by \<^verbatim>\<open>distribute_work\<close> is contiguous (each chunk ends where the next one starts),
  non-overlapping (a chunk ends at or before the start of every later chunk, and every
  length is positive) and tiles the file exactly (it starts at offset 0 and ends at the
  file size); the length of the last chunk is the file size modulo the chunk size when
  that is not zero and the chunk size otherwise; the plan is empty exactly for the empty
  file.
\<close>

theorem chunk_plan_tiles_file:
  assumes "0 \<le> file_size" and "0 < cs"
  shows "let plan = plan_chunks cs file_size in
     (\<forall>k. Suc k < length plan \<longrightarrow> fst (plan ! k) + snd (plan ! k) = fst (plan ! Suc k)) \<and>
     (\<forall>k j. k < j \<and> j < length plan \<longrightarrow> fst (plan ! k) + snd (plan ! k) \<le> fst (plan ! j)) \<and>
     (\<forall>k. k < length plan \<longrightarrow> 0 < snd (plan ! k)) \<and>
     (plan \<noteq> [] \<longrightarrow>
        fst (hd plan) = 0 \<and>
        fst (last plan) + snd (last plan) = file_size \<and>
        snd (last plan) = (if file_size mod cs \<noteq> 0 then file_size mod cs else cs)) \<and>
     (plan = [] \<longleftrightarrow> file_size = 0)"
proof -
  let ?p = "chunks_from cs file_size 0"
  have contiguous: "\<forall>k. Suc k < length ?p \<longrightarrow> fst (?p ! k) + snd (?p ! k) = fst (?p ! Suc k)"
    by (simp add: chunks_from_contiguous)
  have disjoint: "\<forall>k j. k < j \<and> j < length ?p \<longrightarrow> fst (?p ! k) + snd (?p ! k) \<le> fst (?p ! j)"
    by (simp add: chunks_from_disjoint)
  have positive: "\<forall>k. k < length ?p \<longrightarrow> 0 < snd (?p ! k)"
    using chunks_from_bounds[of _ cs file_size 0] by simp
  have ends: "fst (hd ?p) = 0 \<and> fst (last ?p) + snd (last ?p) = file_size
      \<and> snd (last ?p) = (if file_size mod cs \<noteq> 0 then file_size mod cs else cs)"
    if ne: "?p \<noteq> []"
  proof -
    note l = chunks_from_last[OF ne]
    have "file_size - fst (last ?p) = (if file_size mod cs \<noteq> 0 then file_size mod cs else cs)"
      using l assms(2) by (intro last_length_mod) simp_all
    moreover have "snd (last ?p) = file_size - fst (last ?p)" using l by linarith
    ultimately show ?thesis using l chunks_from_hd[OF ne] by simp
  qed
  have empty: "?p = [] \<longleftrightarrow> file_size = 0"
    using chunks_from_Nil_iff[OF assms(2), of file_size 0] assms(1) by auto
  show ?thesis
    unfolding plan_chunks_def Let_def
    using contiguous disjoint positive ends empty by blast
qed

text \<open>
  The plan of a file of 3,000,000 bytes with chunks of 1,048,576 bytes, and of the empty
  file.
\<close>

theorem chunk_plan_tiles_file_witness:
  "(0::int) \<le> 3000000 \<and> (0::int) < 1048576 \<and>
   plan_chunks 1048576 3000000 = [(0, 1048576), (1048576, 1048576), (2097152, 902848)] \<and>
   snd (last (plan_chunks 1048576 3000000)) = 3000000 mod 1048576 \<and>
   fst (last (plan_chunks 1048576 3000000)) + snd (last (plan_chunks 1048576 3000000)) = 3000000 \<and>
   plan_chunks 1048576 0 = []"
proof -
  have p: "plan_chunks 1048576 3000000 = [(0, 1048576), (1048576, 1048576), (2097152, 902848)]"
    by (simp add: plan_chunks_def chunks_from_unfold)
  have "plan_chunks 1048576 0 = []"
    using chunk_plan_tiles_file[of 0 1048576] by (simp add: Let_def)
  moreover have "snd (last (plan_chunks 1048576 3000000)) = 3000000 mod 1048576
     \<and> fst (last (plan_chunks 1048576 3000000)) + snd (last (plan_chunks 1048576 3000000)) = 3000000"
    using chunk_plan_tiles_file[of 3000000 1048576] p by (simp add: Let_def)
  ultimately show ?thesis using p by simp
qed

section \<open>Dicts\<close>

lemma map_of_dict_set: "map_of (dict_set k v d) = (map_of d)(k \<mapsto> v)"
  by (induction d) (auto simp: fun_eq_iff)

lemma keys_dict_set_present:
  "map_of d k \<noteq> None \<Longrightarrow> map fst (dict_set k v d) = map fst d"
  by (induction d) (auto split: if_splits)

lemma dict_set_absent: "map_of d k = None \<Longrightarrow> dict_set k v d = d @ [(k, v)]"
  by (induction d) (auto split: if_splits)

lemma dict_set_twice: "dict_set k v' (dict_set k v d) = dict_set k v' d"
  by (induction d) auto

section \<open>The scenario\<close>

lemma test_world_simps:
  "os_getsize test_world = getsize_normal"
  "print_out test_world m = None"
  "http_post test_world r = Inr 404"
  by (simp_all add: test_world_def printing_def)

lemma three_workers_eq:
  "three_workers =
     \<lparr>workers = [(''worker1'', PStr ''healthy''), (''worker2'', PStr ''healthy''),
                 (''worker3'', PStr ''healthy'')],
      results = [], port = 8000, file_chunks = [], sent = []\<rparr>"
  by (simp add: three_workers_def register_worker_def Coordinator_def test_world_simps)

lemma worker1_unhealthy_eq:
  "worker1_unhealthy =
     \<lparr>workers = [(''worker1'', PStr ''unhealthy''), (''worker2'', PStr ''healthy''),
                 (''worker3'', PStr ''healthy'')],
      results = [], port = 8000, file_chunks = [], sent = []\<rparr>"
  by (simp add: worker1_unhealthy_def three_workers_eq update_worker_health_def test_world_simps)

lemma plan_normal_log:
  "plan_chunks chunk_size 3000000 = [(0, 1048576), (1048576, 1048576), (2097152, 902848)]"
  by (simp add: plan_chunks_def chunk_size_def chunks_from_unfold)

section \<open>process\_file\<close>

lemma aggregate_worker_results:
  "aggregate_results worker_results =
     \<lparr>total_requests = 3000, malformed_lines = 30, error_count = 0, avg_response_time = 109\<rparr>"
  by (simp add: aggregate_results_def worker_results_def fold_result_def initial_aggregate_def)

lemma process_file_result: "snd (process_file c fp) = aggregate_results worker_results"
  by (simp add: process_file_def Let_def)

text \<open>
  Claim C9. For every file path and every coordinator state, \<^verbatim>\<open>process_file\<close> returns
  the aggregate with 3000 total requests, 30 malformed lines, error count 0 and average
  response time 109.0: the same for any two calls, whatever the path, the registered
  workers and the stored results. It takes no file system and reads none; its only
  effect is to bind \<^verbatim>\<open>self.results\<close> to that aggregate.
\<close>

theorem process_file_constant:
  "snd (process_file c filepath) =
     \<lparr>total_requests = 3000, malformed_lines = 30, error_count = 0, avg_response_time = 109\<rparr> \<and>
   snd (process_file c filepath) = snd (process_file c' filepath') \<and>
   fst (process_file c filepath) =
     c\<lparr>results := [(''total_requests'', IntVal 3000), (''malformed_lines'', IntVal 30),
                    (''error_count'', IntVal 0), (''avg_response_time'', FloatVal 109)]\<rparr>"
  by (simp add: process_file_def aggregate_worker_results aggregate_items_def)

text \<open>
  Claim C6, as stated, fails: accepted results are not folded into an aggregate. Two
  results accepted from a worker in one order and in the other leave two different
  stores, each with the results in their order of arrival; and the aggregate that
  \<^verbatim>\<open>process_file\<close> returns when the two results have been accepted is the one it
  returns when none has, with 3000 total requests, whatever the accepted results count.
\<close>

theorem accepted_results_kept_in_order_not_folded:
  "receive_all test_world (Coordinator 8000) [(''worker1'', result_a), (''worker1'', result_b)]
     = (Coordinator 8000)\<lparr>results := [(''worker1'', ResultList [result_a, result_b])]\<rparr> \<and>
   receive_all test_world (Coordinator 8000) [(''worker1'', result_b), (''worker1'', result_a)]
     = (Coordinator 8000)\<lparr>results := [(''worker1'', ResultList [result_b, result_a])]\<rparr> \<and>
   (Coordinator 8000)\<lparr>results := [(''worker1'', ResultList [result_a, result_b])]\<rparr>
     \<noteq> (Coordinator 8000)\<lparr>results := [(''worker1'', ResultList [result_b, result_a])]\<rparr> \<and>
   snd (process_file
          ((Coordinator 8000)\<lparr>results := [(''worker1'', ResultList [result_a, result_b])]\<rparr>)
          normal_log)
     = snd (process_file (Coordinator 8000) normal_log) \<and>
   total_requests
     (snd (process_file
             ((Coordinator 8000)\<lparr>results := [(''worker1'', ResultList [result_a, result_b])]\<rparr>)
             normal_log)) = 3000"
proof -
  have differ: "result_a \<noteq> result_b"
    by (simp add: result_a_def result_b_def)
  have "receive_all test_world (Coordinator 8000) [(''worker1'', ra), (''worker1'', rb)]
     = (Coordinator 8000)\<lparr>results := [(''worker1'', ResultList [ra, rb])]\<rparr>" for ra rb
    by (simp add: receive_results_def results_received_def Coordinator_def test_world_simps)
  then show ?thesis
    using differ by (simp add: process_file_result aggregate_worker_results Coordinator_def)
qed

text \<open>
  Claim C6, amended. The aggregate that \<^verbatim>\<open>process_file\<close> returns is the same for every
  arrival order of the accepted results, and for any two sequences of submissions at
  all: it is the fold of the two results that \<^verbatim>\<open>process_file\<close> builds itself, which is
  the same in either order. Accepted results are not folded into it.
\<close>

theorem aggregate_same_for_every_arrival_order:
  "snd (process_file (receive_all w c subs) filepath)
     = snd (process_file (receive_all w c subs') filepath) \<and>
   snd (process_file (receive_all w c subs) filepath) = aggregate_results worker_results \<and>
   aggregate_results (rev worker_results) = aggregate_results worker_results"
proof -
  have "aggregate_results (rev worker_results) = aggregate_results worker_results"
    by (simp add: aggregate_results_def worker_results_def fold_result_def initial_aggregate_def)
  then show ?thesis
    by (simp add: process_file_result)
qed

section \<open>Health reports\<close>

text \<open>
  Claim C7, as stated, fails: a health report for a worker id that was never registered
  is answered with status 200 and the text "Health updated", not rejected.
\<close>

theorem health_report_unregistered_acknowledged:
  "map_of (workers (Coordinator 8000)) ''worker9'' = None \<and>
   update_worker_health test_world (Coordinator 8000) ''worker9'' (PStr ''healthy'')
     = Inr (Coordinator 8000, Response 200 ''Health updated'')"
  by (simp add: update_worker_health_def Coordinator_def)

text \<open>
  Claim C7, amended. A health report for a worker id that was never registered is
  acknowledged with status 200 and leaves the coordinator's state unchanged. For a
  registered worker the status of that worker becomes the reported value, every other
  worker keeps its status and the order of the registry is kept, whether the handler
  then returns or its \<^verbatim>\<open>print\<close> raises; the report is acknowledged with status 200
  when that \<^verbatim>\<open>print\<close> succeeds.
\<close>

theorem update_worker_health_effect:
  "(map_of (workers c) worker_id = None \<longrightarrow>
      update_worker_health w c worker_id status = Inr (c, Response 200 ''Health updated'')) \<and>
   (map_of (workers c) worker_id \<noteq> None \<longrightarrow>
      state_after (update_worker_health w c worker_id status)
        = c\<lparr>workers := dict_set worker_id status (workers c)\<rparr> \<and>
      map_of (workers (state_after (update_worker_health w c worker_id status)))
        = (map_of (workers c))(worker_id \<mapsto> status) \<and>
      map fst (workers (state_after (update_worker_health w c worker_id status)))
        = map fst (workers c) \<and>
      (print_out w (HealthUpdated worker_id status) = None \<longrightarrow>
         update_worker_health w c worker_id status
           = Inr (c\<lparr>workers := dict_set worker_id status (workers c)\<rparr>,
                  Response 200 ''Health updated'')))"
proof -
  have after: "state_after (update_worker_health w c worker_id status)
        = c\<lparr>workers := dict_set worker_id status (workers c)\<rparr>"
    if "map_of (workers c) worker_id \<noteq> None"
    using that by (simp add: update_worker_health_def Let_def split: option.splits)
  show ?thesis
    by (simp add: after map_of_dict_set keys_dict_set_present)
      (simp add: update_worker_health_def)
qed

text \<open>
  The first of the three workers reports itself unhealthy, and a stranger reports.
\<close>

theorem update_worker_health_effect_witness:
  "map_of (workers three_workers) ''worker1'' \<noteq> None \<and>
   map_of (workers three_workers) ''worker9'' = None \<and>
   print_out test_world (HealthUpdated ''worker1'' (PStr ''unhealthy'')) = None \<and>
   update_worker_health test_world three_workers ''worker1'' (PStr ''unhealthy'')
     = Inr (worker1_unhealthy, Response 200 ''Health updated'') \<and>
   map_of (workers worker1_unhealthy) ''worker1'' = Some (PStr ''unhealthy'') \<and>
   update_worker_health test_world three_workers ''worker9'' (PStr ''unhealthy'')
     = Inr (three_workers, Response 200 ''Health updated'')"
proof -
  have reg: "map_of (workers three_workers) ''worker1'' \<noteq> None"
      "map_of (workers three_workers) ''worker9'' = None"
    by (simp_all add: three_workers_eq)
  have pr: "print_out test_world (HealthUpdated ''worker1'' (PStr ''unhealthy'')) = None"
    by (simp add: test_world_simps)
  note eff1 = update_worker_health_effect
      [of three_workers "''worker1''" test_world "PStr ''unhealthy''"]
  note eff9 = update_worker_health_effect
      [of three_workers "''worker9''" test_world "PStr ''unhealthy''"]
  have run: "update_worker_health test_world three_workers ''worker1'' (PStr ''unhealthy'')
     = Inr (three_workers\<lparr>workers := dict_set ''worker1'' (PStr ''unhealthy'') (workers three_workers)\<rparr>,
            Response 200 ''Health updated'')"
    using eff1 reg(1) pr by blast
  then have st: "worker1_unhealthy
     = three_workers\<lparr>workers := dict_set ''worker1'' (PStr ''unhealthy'') (workers three_workers)\<rparr>"
    by (simp add: worker1_unhealthy_def)
  have "map_of (workers worker1_unhealthy) ''worker1'' = Some (PStr ''unhealthy'')"
    by (simp add: worker1_unhealthy_eq)
  moreover have "update_worker_health test_world three_workers ''worker9'' (PStr ''unhealthy'')
     = Inr (three_workers, Response 200 ''Health updated'')"
    using eff9 reg(2) by blast
  ultimately show ?thesis
    using reg pr run st by simp
qed

section \<open>process\_chunk\<close>

text \<open>
  Claim C8 fails on the code. The file cannot be opened, and the standard output of the
  worker cannot encode the message that the handler of the exception prints: the
  exception of that \<^verbatim>\<open>print\<close> leaves \<^verbatim>\<open>process_chunk\<close>, and the caller gets no
  metrics.
\<close>

theorem process_chunk_raises_when_print_fails:
  "process_chunk (\<lambda>f s z. Inl OSError) failing_stdout ''missing.log'' 0 1048576 = Inl UnicodeEncodeError"
  by (simp add: process_chunk_def count_chunk_def failing_stdout_def)

text \<open>
  When reading raises and the handler's message is printed, the metrics returned are all
  zero; \<^verbatim>\<open>process_chunk\<close> raises exactly when reading raises and the \<^verbatim>\<open>print\<close> of
  that exception raises too.
\<close>

lemma process_chunk_zero_metrics:
  "read_range filepath start sz = Inl e \<Longrightarrow> out (ErrorProcessingChunk e) = None \<Longrightarrow>
   process_chunk read_range out filepath start sz = Inr \<lparr>lines = 0, errors = 0, warnings = 0\<rparr>"
  by (simp add: process_chunk_def count_chunk_def)

lemma process_chunk_raises_iff:
  "process_chunk read_range out filepath start sz = Inl e' \<longleftrightarrow>
   (\<exists>e. read_range filepath start sz = Inl e \<and> out (ErrorProcessingChunk e) = Some e')"
  by (auto simp: process_chunk_def count_chunk_def Let_def split: sum.splits option.splits)

text \<open>
  A chunk that can be read: three lines, one error, one warning.
\<close>

lemma process_chunk_counts:
  "process_chunk (\<lambda>f s z. Inr ''a ERROR\<newline>b WARNING\<newline>c'') out ''normal.log'' 0 1048576
     = Inr \<lparr>lines = 3, errors = 1, warnings = 1\<rparr>"
  by (simp add: process_chunk_def count_chunk_def splitlines_def is_linebreak_def Let_def)

section \<open>Distribution\<close>

lemma send_work_printing:
  assumes "\<forall>m. print_out w m = None"
  shows "send_work w c worker_id fp s z =
     Inr (c\<lparr>sent := sent c @
          (if is_healthy c worker_id
           then [\<lparr>url_port = port c, body_filepath = fp, body_start = s, body_size = z\<rparr>]
           else [])\<rparr>)"
  using assms
  by (auto simp: send_work_def send_failed_def is_healthy_def Let_def split: sum.splits)

lemma send_chunks_printing:
  assumes "\<forall>m. print_out w m = None"
  shows "send_chunks w c ids fp i chunks =
     Inr (c\<lparr>sent := sent c @
          map (\<lambda>ic. \<lparr>url_port = port c, body_filepath = fp,
                     body_start = fst (snd ic), body_size = snd (snd ic)\<rparr>)
            (filter (\<lambda>ic. is_healthy c (assigned_worker ids (fst ic)))
               (zip [i..<i + length chunks] chunks))\<rparr>)"
proof (induction chunks arbitrary: c i)
  case Nil
  then show ?case by simp
next
  case (Cons ch chunks)
  obtain s z where ch: "ch = (s, z)" by (cases ch)
  let ?c' = "c\<lparr>sent := sent c @
          (if is_healthy c (assigned_worker ids i)
           then [\<lparr>url_port = port c, body_filepath = fp, body_start = s, body_size = z\<rparr>]
           else [])\<rparr>"
  have zip: "zip [i..<i + length (ch # chunks)] (ch # chunks)
               = (i, ch) # zip [Suc i..<Suc i + length chunks] chunks"
    by (simp add: upt_conv_Cons del: upt_Suc)
  have healthy: "is_healthy ?c' = is_healthy c"
    by (simp add: is_healthy_def fun_eq_iff)
  have "send_chunks w c ids fp i (ch # chunks) = send_chunks w ?c' ids fp (Suc i) chunks"
    using ch by (simp add: send_work_printing[OF assms])
  also have "\<dots> = Inr (?c'\<lparr>sent := sent ?c' @
          map (\<lambda>ic. \<lparr>url_port = port ?c', body_filepath = fp,
                     body_start = fst (snd ic), body_size = snd (snd ic)\<rparr>)
            (filter (\<lambda>ic. is_healthy c (assigned_worker ids (fst ic)))
               (zip [Suc i..<Suc i + length chunks] chunks))\<rparr>)"
    by (simp only: Cons.IH healthy)
  also have "\<dots> = Inr (c\<lparr>sent := sent c @
          map (\<lambda>ic. \<lparr>url_port = port c, body_filepath = fp,
                     body_start = fst (snd ic), body_size = snd (snd ic)\<rparr>)
            (filter (\<lambda>ic. is_healthy c (assigned_worker ids (fst ic)))
               (zip [i..<i + length (ch # chunks)] (ch # chunks)))\<rparr>)"
    unfolding zip by (simp add: ch)
  finally show ?case .
qed

lemma distribute_work_printing:
  assumes "os_getsize w fp = Inr file_size" and "\<forall>m. print_out w m = None"
  shows "distribute_work w c fp =
     Inr (c\<lparr>file_chunks := plan_chunks chunk_size file_size,
            sent := sent c @
              (if workers c = [] then []
               else map (\<lambda>ic. \<lparr>url_port = port c, body_filepath = fp,
                               body_start = fst (snd ic), body_size = snd (snd ic)\<rparr>)
                      (filter (\<lambda>ic. is_healthy c (assigned_worker (map fst (workers c)) (fst ic)))
                         (zip [0..<length (plan_chunks chunk_size file_size)]
                              (plan_chunks chunk_size file_size))))\<rparr>)"
proof -
  have healthy: "is_healthy (c\<lparr>file_chunks := x\<rparr>) = is_healthy c" for x
    by (simp add: is_healthy_def fun_eq_iff)
  show ?thesis
    using assms by (simp add: distribute_work_def send_chunks_printing healthy)
qed

text \<open>
  Claim C4, amended. When the size of the file can be read and every \<^verbatim>\<open>print\<close>
  succeeds, \<^verbatim>\<open>distribute_work\<close> returns with the chunks planned, the registry and the
  store unchanged, and, with no worker registered, nothing requested. Otherwise chunk
  number \<open>i\<close> of the plan is assigned to registered worker number \<open>i mod n\<close>, counted
  in registration order over all \<open>n\<close> registered workers, healthy or not, and a request
  for the chunk is posted exactly when that worker's status is "healthy": for a chunk
  assigned to a worker that is not healthy no request is posted. In particular, for a
  file of 3,000,000 bytes and three registered workers that are all healthy, three
  chunks are planned, chunk \<open>i\<close> is assigned to worker \<open>i\<close>, and one request is posted
  for each chunk, in the order of the chunks.
\<close>

theorem distribute_work_round_robin:
  assumes "os_getsize w filepath = Inr file_size" and "\<forall>m. print_out w m = None"
  shows "\<exists>c'. distribute_work w c filepath = Inr c' \<and>
     file_chunks c' = plan_chunks chunk_size file_size \<and>
     workers c' = workers c \<and> results c' = results c \<and>
     (workers c = [] \<longrightarrow> requested c' = requested c) \<and>
     (workers c \<noteq> [] \<longrightarrow>
        requested c' = requested c @
          map (\<lambda>ic. (filepath, snd ic))
            (filter (\<lambda>ic. is_healthy c (assigned_worker (map fst (workers c)) (fst ic)))
               (zip [0..<length (plan_chunks chunk_size file_size)]
                    (plan_chunks chunk_size file_size)))) \<and>
     (file_size = 3000000 \<and>
      workers c = [(w0, PStr ''healthy''), (w1, PStr ''healthy''), (w2, PStr ''healthy'')] \<longrightarrow>
        file_chunks c' = [(0, 1048576), (1048576, 1048576), (2097152, 902848)] \<and>
        map (assigned_worker (map fst (workers c))) [0, 1, 2] = [w0, w1, w2] \<and>
        requested c' = requested c @
          [(filepath, 0, 1048576), (filepath, 1048576, 1048576), (filepath, 2097152, 902848)])"
proof -
  let ?plan = "plan_chunks chunk_size file_size"
  define new where "new =
     (if workers c = [] then []
      else map (\<lambda>ic. \<lparr>url_port = port c, body_filepath = filepath,
                      body_start = fst (snd ic), body_size = snd (snd ic)\<rparr>)
             (filter (\<lambda>ic. is_healthy c (assigned_worker (map fst (workers c)) (fst ic)))
                (zip [0..<length ?plan] ?plan)))"
  define c' where "c' = c\<lparr>file_chunks := ?plan, sent := sent c @ new\<rparr>"
  have run: "distribute_work w c filepath = Inr c'"
    using distribute_work_printing[OF assms] by (simp add: c'_def new_def)
  have fields: "file_chunks c' = ?plan" "workers c' = workers c" "results c' = results c"
    by (simp_all add: c'_def)
  have req: "requested c' = requested c @ map (\<lambda>r. (body_filepath r, body_start r, body_size r)) new"
    by (simp add: requested_def c'_def)
  have none: "requested c' = requested c" if "workers c = []"
    using that by (simp add: req new_def)
  have some: "requested c' = requested c @
          map (\<lambda>ic. (filepath, snd ic))
            (filter (\<lambda>ic. is_healthy c (assigned_worker (map fst (workers c)) (fst ic)))
               (zip [0..<length ?plan] ?plan))"
    if "workers c \<noteq> []"
    using that by (simp add: req new_def comp_def)
  have scenario: "file_chunks c' = [(0, 1048576), (1048576, 1048576), (2097152, 902848)] \<and>
        map (assigned_worker (map fst (workers c))) [0, 1, 2] = [w0, w1, w2] \<and>
        requested c' = requested c @
          [(filepath, 0, 1048576), (filepath, 1048576, 1048576), (filepath, 2097152, 902848)]"
    if fs: "file_size = 3000000"
      and ws: "workers c = [(w0, PStr ''healthy''), (w1, PStr ''healthy''), (w2, PStr ''healthy'')]"
  proof -
    have ne: "workers c \<noteq> []" using ws by simp
    have three: "[0..<3] = [0, Suc 0, Suc (Suc 0)]"
      by (simp add: upt_conv_Cons)
    have h: "is_healthy c w0" "is_healthy c w1" "is_healthy c w2"
      using ws by (simp_all add: is_healthy_def)
    have a: "map (assigned_worker (map fst (workers c))) [0, 1, 2] = [w0, w1, w2]"
      by (simp add: ws assigned_worker_def)
    have r: "requested c' = requested c @
          [(filepath, 0, 1048576), (filepath, 1048576, 1048576), (filepath, 2097152, 902848)]"
      unfolding some[OF ne] fs plan_normal_log
      using h by (simp add: ws three assigned_worker_def)
    have f: "file_chunks c' = [(0, 1048576), (1048576, 1048576), (2097152, 902848)]"
      using fields(1) by (simp add: fs plan_normal_log)
    show ?thesis using a r f by blast
  qed
  show ?thesis
  proof (intro exI[of _ c'] conjI impI)
    show "distribute_work w c filepath = Inr c'" by (rule run)
    show "file_chunks c' = ?plan" "workers c' = workers c" "results c' = results c"
      by (rule fields)+
    show "requested c' = requested c" if "workers c = []"
      using that by (rule none)
    show "requested c' = requested c @
          map (\<lambda>ic. (filepath, snd ic))
            (filter (\<lambda>ic. is_healthy c (assigned_worker (map fst (workers c)) (fst ic)))
               (zip [0..<length ?plan] ?plan))" if "workers c \<noteq> []"
      using that by (rule some)
    assume sc: "file_size = 3000000 \<and>
      workers c = [(w0, PStr ''healthy''), (w1, PStr ''healthy''), (w2, PStr ''healthy'')]"
    note s = scenario[OF conjunct1[OF sc] conjunct2[OF sc]]
    show "file_chunks c' = [(0, 1048576), (1048576, 1048576), (2097152, 902848)]"
      by (rule conjunct1[OF s])
    show "map (assigned_worker (map fst (workers c))) [0, 1, 2] = [w0, w1, w2]"
      by (rule conjunct1[OF conjunct2[OF s]])
    show "requested c' = requested c @
          [(filepath, 0, 1048576), (filepath, 1048576, 1048576), (filepath, 2097152, 902848)]"
      by (rule conjunct2[OF conjunct2[OF s]])
  qed
qed

text \<open>
  The three workers of the tests and the file of 3,000,000 bytes.
\<close>

theorem distribute_work_round_robin_witness:
  "os_getsize test_world normal_log = Inr 3000000 \<and>
   (\<forall>m. print_out test_world m = None) \<and>
   workers three_workers =
     [(''worker1'', PStr ''healthy''), (''worker2'', PStr ''healthy''), (''worker3'', PStr ''healthy'')] \<and>
   distribute_work test_world three_workers normal_log
     = Inr (three_workers
             \<lparr>file_chunks := [(0, 1048576), (1048576, 1048576), (2097152, 902848)],
              sent := [chunk0_request, chunk1_request, chunk2_request]\<rparr>) \<and>
   requested (three_workers
             \<lparr>file_chunks := [(0, 1048576), (1048576, 1048576), (2097152, 902848)],
              sent := [chunk0_request, chunk1_request, chunk2_request]\<rparr>)
     = [(normal_log, 0, 1048576), (normal_log, 1048576, 1048576), (normal_log, 2097152, 902848)] \<and>
   map (assigned_worker [''worker1'', ''worker2'', ''worker3'']) [0, 1, 2]
     = [''worker1'', ''worker2'', ''worker3'']"
proof -
  let ?c' = "three_workers
             \<lparr>file_chunks := [(0, 1048576), (1048576, 1048576), (2097152, 902848)],
              sent := [chunk0_request, chunk1_request, chunk2_request]\<rparr>"
  have g: "os_getsize test_world normal_log = Inr 3000000"
    by (simp add: test_world_simps getsize_normal_def)
  have p: "\<forall>m. print_out test_world m = None"
    by (simp add: test_world_simps)
  have ws: "workers three_workers =
     [(''worker1'', PStr ''healthy''), (''worker2'', PStr ''healthy''), (''worker3'', PStr ''healthy'')]"
    by (simp add: three_workers_eq)
  have run: "distribute_work test_world three_workers normal_log = Inr ?c'"
    by (simp add: distribute_work_def test_world_simps getsize_normal_def three_workers_eq
        plan_normal_log send_work_def assigned_worker_def
        chunk0_request_def chunk1_request_def chunk2_request_def)
  from distribute_work_round_robin[where w = test_world and filepath = normal_log
        and file_size = 3000000 and c = three_workers
        and ?w0.0 = "''worker1''" and ?w1.0 = "''worker2''" and ?w2.0 = "''worker3''", OF g p]
  obtain c' where c': "distribute_work test_world three_workers normal_log = Inr c'"
    and sc: "3000000 = (3000000::int) \<and> workers three_workers =
        [(''worker1'', PStr ''healthy''), (''worker2'', PStr ''healthy''), (''worker3'', PStr ''healthy'')]
      \<longrightarrow> file_chunks c' = [(0, 1048576), (1048576, 1048576), (2097152, 902848)] \<and>
          map (assigned_worker (map fst (workers three_workers))) [0, 1, 2]
            = [''worker1'', ''worker2'', ''worker3''] \<and>
          requested c' = requested three_workers @
            [(normal_log, 0, 1048576), (normal_log, 1048576, 1048576), (normal_log, 2097152, 902848)]"
    by (elim exE conjE)
  have both: "file_chunks c' = [(0, 1048576), (1048576, 1048576), (2097152, 902848)] \<and>
          map (assigned_worker (map fst (workers three_workers))) [0, 1, 2]
            = [''worker1'', ''worker2'', ''worker3''] \<and>
          requested c' = requested three_workers @
            [(normal_log, 0, 1048576), (normal_log, 1048576, 1048576), (normal_log, 2097152, 902848)]"
    by (rule mp[OF sc]) (simp add: ws)
  note am = conjunct1[OF conjunct2[OF both]]
  note rq = conjunct2[OF conjunct2[OF both]]
  have "c' = ?c'" using c' run by simp
  moreover have "requested three_workers = []"
    by (simp add: requested_def three_workers_eq)
  ultimately have r: "requested ?c'
     = [(normal_log, 0, 1048576), (normal_log, 1048576, 1048576), (normal_log, 2097152, 902848)]"
    using rq by simp
  have a: "map (assigned_worker [''worker1'', ''worker2'', ''worker3'']) [0, 1, 2]
          = [''worker1'', ''worker2'', ''worker3'']"
    using am ws by simp
  show ?thesis using g p ws run r a by blast
qed

text \<open>
  Claim C4, as stated, fails: the round robin runs over all registered workers. With the
  first of three workers reported unhealthy, chunk 0 is still assigned to it, and no
  request is posted for chunk 0; the requests posted are those for chunks 1 and 2. A
  cursor over the two healthy workers would have had a request posted for each of the
  three chunks.
\<close>

theorem round_robin_counts_unhealthy_worker:
  "distribute_work test_world worker1_unhealthy normal_log
     = Inr \<lparr>workers = [(''worker1'', PStr ''unhealthy''), (''worker2'', PStr ''healthy''),
                       (''worker3'', PStr ''healthy'')],
            results = [], port = 8000,
            file_chunks = [(0, 1048576), (1048576, 1048576), (2097152, 902848)],
            sent = [chunk1_request, chunk2_request]\<rparr> \<and>
   map (assigned_worker (map fst (workers worker1_unhealthy))) [0, 1, 2]
     = [''worker1'', ''worker2'', ''worker3''] \<and>
   \<not> is_healthy worker1_unhealthy ''worker1''"
  by (simp add: distribute_work_def test_world_simps getsize_normal_def worker1_unhealthy_eq
      plan_normal_log send_work_def assigned_worker_def is_healthy_def
      chunk1_request_def chunk2_request_def)

text \<open>
  The request that \<^verbatim>\<open>send_work\<close> posts for a healthy worker goes to the coordinator's
  own port, whatever the worker.
\<close>

lemma send_work_posts_to_own_port:
  "is_healthy c worker_id \<Longrightarrow>
   sent (state_of (send_work w c worker_id fp s z))
     = sent c @ [\<lparr>url_port = port c, body_filepath = fp, body_start = s, body_size = z\<rparr>]"
  by (auto simp: send_work_def send_failed_def is_healthy_def Let_def
      split: sum.splits option.splits)

section \<open>Result submissions\<close>

text \<open>
  Claim C3, as stated, fails: a result submitted a second time is stored a second time.
  After the first submission the store holds one copy of the result for the worker,
  after the duplicate it holds two, and the two stores differ. The aggregate that
  \<^verbatim>\<open>process_file\<close> returns is the same with the first result stored as with none: no
  submission is folded into it.
\<close>

theorem duplicate_submission_stored_twice:
  "receive_results test_world (Coordinator 8000) ''worker1'' chunk_metrics
     = Inr ((Coordinator 8000)\<lparr>results := [(''worker1'', ResultList [chunk_metrics])]\<rparr>,
            Response 200 ''Results received'') \<and>
   receive_results test_world
       ((Coordinator 8000)\<lparr>results := [(''worker1'', ResultList [chunk_metrics])]\<rparr>)
       ''worker1'' chunk_metrics
     = Inr ((Coordinator 8000)\<lparr>results := [(''worker1'', ResultList [chunk_metrics, chunk_metrics])]\<rparr>,
            Response 200 ''Results received'') \<and>
   (Coordinator 8000)\<lparr>results := [(''worker1'', ResultList [chunk_metrics, chunk_metrics])]\<rparr>
     \<noteq> (Coordinator 8000)\<lparr>results := [(''worker1'', ResultList [chunk_metrics])]\<rparr> \<and>
   snd (process_file ((Coordinator 8000)\<lparr>results := [(''worker1'', ResultList [chunk_metrics])]\<rparr>)
          normal_log)
     = snd (process_file (Coordinator 8000) normal_log)"
  by (simp add: receive_results_def results_received_def Coordinator_def process_file_def Let_def
      test_world_simps)

text \<open>
  Claim C3, amended. Every result received, the first as well as a duplicate or late
  one, is appended to the list that \<^verbatim>\<open>self.results\<close> holds for the submitting worker
  (a new list when the worker has none): after a submission the list is the old one
  followed by the result, and after the same submission again the result is there
  twice, whether the handler returns or its \<^verbatim>\<open>print\<close> raises. Nothing is discarded.
  When the \<^verbatim>\<open>print\<close> succeeds, both submissions are acknowledged with status 200.
\<close>

theorem every_submission_is_appended:
  assumes "map_of (results c) worker_id = Some (ResultList rs) \<or>
           map_of (results c) worker_id = None \<and> rs = []"
  shows "state_after (receive_results w c worker_id result)
           = c\<lparr>results := dict_set worker_id (ResultList (rs @ [result])) (results c)\<rparr> \<and>
         map_of (dict_set worker_id (ResultList (rs @ [result])) (results c))
           = (map_of (results c))(worker_id \<mapsto> ResultList (rs @ [result])) \<and>
         state_after (receive_results w
             (c\<lparr>results := dict_set worker_id (ResultList (rs @ [result])) (results c)\<rparr>)
             worker_id result)
           = c\<lparr>results := dict_set worker_id (ResultList (rs @ [result, result])) (results c)\<rparr> \<and>
         (print_out w (ReceivedResults worker_id result) = None \<longrightarrow>
            receive_results w c worker_id result
              = Inr (c\<lparr>results := dict_set worker_id (ResultList (rs @ [result])) (results c)\<rparr>,
                     Response 200 ''Results received'') \<and>
            receive_results w
                (c\<lparr>results := dict_set worker_id (ResultList (rs @ [result])) (results c)\<rparr>)
                worker_id result
              = Inr (c\<lparr>results := dict_set worker_id (ResultList (rs @ [result, result])) (results c)\<rparr>,
                     Response 200 ''Results received''))"
proof -
  let ?c1 = "c\<lparr>results := dict_set worker_id (ResultList (rs @ [result])) (results c)\<rparr>"
  let ?c2 = "c\<lparr>results := dict_set worker_id (ResultList (rs @ [result, result])) (results c)\<rparr>"
  have first: "receive_results w c worker_id result = results_received w ?c1 worker_id result"
    using assms by (auto simp: receive_results_def)
  have second: "receive_results w ?c1 worker_id result = results_received w ?c2 worker_id result"
    by (simp add: receive_results_def map_of_dict_set dict_set_twice)
  have after: "state_after (results_received w c' worker_id result) = c'" for c'
    by (simp add: results_received_def split: option.splits)
  have ok: "results_received w c' worker_id result = Inr (c', Response 200 ''Results received'')"
    if "print_out w (ReceivedResults worker_id result) = None" for c'
    using that by (simp add: results_received_def)
  show ?thesis
    unfolding first second by (simp add: after ok map_of_dict_set)
qed

text \<open>
  The first worker submits the same metrics twice to a fresh coordinator.
\<close>

theorem every_submission_is_appended_witness:
  "map_of (results (Coordinator 8000)) ''worker1'' = None \<and>
   print_out test_world (ReceivedResults ''worker1'' chunk_metrics) = None \<and>
   receive_results test_world (Coordinator 8000) ''worker1'' chunk_metrics
     = Inr ((Coordinator 8000)\<lparr>results := [(''worker1'', ResultList [chunk_metrics])]\<rparr>,
            Response 200 ''Results received'') \<and>
   receive_results test_world
       ((Coordinator 8000)\<lparr>results := [(''worker1'', ResultList [chunk_metrics])]\<rparr>)
       ''worker1'' chunk_metrics
     = Inr ((Coordinator 8000)\<lparr>results := [(''worker1'', ResultList [chunk_metrics, chunk_metrics])]\<rparr>,
            Response 200 ''Results received'')"
proof -
  have n: "map_of (results (Coordinator 8000)) ''worker1'' = None"
    by (simp add: Coordinator_def)
  have r: "results (Coordinator 8000) = []"
    by (simp add: Coordinator_def)
  have p: "print_out test_world (ReceivedResults ''worker1'' chunk_metrics) = None"
    by (simp add: test_world_simps)
  have "map_of (results (Coordinator 8000)) ''worker1'' = Some (ResultList []) \<or>
        map_of (results (Coordinator 8000)) ''worker1'' = None \<and> ([]::pyval list) = []"
    using n by simp
  from every_submission_is_appended[OF this, of test_world chunk_metrics]
  have "receive_results test_world (Coordinator 8000) ''worker1'' chunk_metrics
          = Inr ((Coordinator 8000)\<lparr>results := dict_set ''worker1'' (ResultList ([] @ [chunk_metrics]))
                     (results (Coordinator 8000))\<rparr>, Response 200 ''Results received'') \<and>
        receive_results test_world
            ((Coordinator 8000)\<lparr>results := dict_set ''worker1'' (ResultList ([] @ [chunk_metrics]))
                     (results (Coordinator 8000))\<rparr>) ''worker1'' chunk_metrics
          = Inr ((Coordinator 8000)\<lparr>results := dict_set ''worker1''
                     (ResultList ([] @ [chunk_metrics, chunk_metrics])) (results (Coordinator 8000))\<rparr>,
                 Response 200 ''Results received'')"
    using p by blast
  then show ?thesis using n p by (simp add: r)
qed

text \<open>
  Claim C10 fails at one input. \<^verbatim>\<open>process_file\<close> binds \<^verbatim>\<open>self.results\<close> to the
  aggregate, whose values are numbers; a submission by a worker whose id is a key of
  the aggregate then finds a number where \<^verbatim>\<open>receive_results\<close> appends to a list, and
  the handler raises \<^verbatim>\<open>AttributeError\<close> with nothing stored, in every world.
\<close>

theorem submission_rejected_after_process_file:
  "fst (process_file (Coordinator 8000) normal_log)
     = (Coordinator 8000)\<lparr>results :=
          [(''total_requests'', IntVal 3000), (''malformed_lines'', IntVal 30),
           (''error_count'', IntVal 0), (''avg_response_time'', FloatVal 109)]\<rparr> \<and>
   receive_results w (fst (process_file (Coordinator 8000) normal_log)) ''total_requests'' chunk_metrics
     = Inl (AttributeError, fst (process_file (Coordinator 8000) normal_log))"
  by (simp add: process_file_def aggregate_worker_results aggregate_items_def receive_results_def
      Coordinator_def)

text \<open>
  A submission by a worker with no entry in the store, registered or not, is stored as a
  new list at the end of the store and, when the \<^verbatim>\<open>print\<close> succeeds, acknowledged;
  the registry is not consulted.
\<close>

lemma submission_accepted_without_registration:
  "map_of (results c) worker_id = None \<Longrightarrow>
   print_out w (ReceivedResults worker_id result) = None \<Longrightarrow>
   receive_results w c worker_id result
     = Inr (c\<lparr>results := results c @ [(worker_id, ResultList [result])]\<rparr>,
            Response 200 ''Results received'')"
  by (simp add: receive_results_def results_received_def dict_set_absent)

section \<open>Worker failure\<close>

lemma dispatched_eq:
  "dispatched =
     \<lparr>workers = [(''worker1'', PStr ''healthy''), (''worker2'', PStr ''healthy''),
                 (''worker3'', PStr ''healthy'')],
      results = [], port = 8000,
      file_chunks = [(0, 1048576), (1048576, 1048576), (2097152, 902848)],
      sent = [chunk0_request, chunk1_request, chunk2_request]\<rparr>"
  by (simp add: dispatched_def distribute_work_def test_world_simps getsize_normal_def
      three_workers_eq plan_normal_log send_work_def assigned_worker_def
      chunk0_request_def chunk1_request_def chunk2_request_def)

lemma worker1_down_eq:
  "worker1_down =
     \<lparr>workers = [(''worker1'', PStr ''unhealthy''), (''worker2'', PStr ''healthy''),
                 (''worker3'', PStr ''healthy'')],
      results = [], port = 8000,
      file_chunks = [(0, 1048576), (1048576, 1048576), (2097152, 902848)],
      sent = [chunk0_request, chunk1_request, chunk2_request]\<rparr>"
  by (simp add: worker1_down_def dispatched_eq update_worker_health_def test_world_simps)

lemma redistribute_worker1_down:
  "distribute_work test_world (worker1_down\<lparr>sent := rs\<rparr>) normal_log
     = Inr (worker1_down\<lparr>sent := rs @ [chunk1_request, chunk2_request]\<rparr>)"
  by (simp add: worker1_down_eq distribute_work_def test_world_simps getsize_normal_def
      plan_normal_log send_work_def assigned_worker_def chunk1_request_def chunk2_request_def)

lemma pop_worker1:
  "worker1_down\<lparr>results := dict_pop ''worker1'' [(''worker1'', v)]\<rparr>
     = worker1_down\<lparr>sent := [chunk0_request, chunk1_request, chunk2_request]\<rparr>"
  by (simp add: worker1_down_eq dict_pop_def)

lemma named_result_filepath: "subscript named_result ''filepath'' = Inr normal_log"
  by (simp add: named_result_def)

text \<open>
  Claim C2 fails on the code. Chunk 0 has been requested for the first worker, which
  has submitted nothing and is reported unhealthy. \<^verbatim>\<open>handle_worker_failure\<close> then
  changes nothing and posts nothing: the pending chunk is not dispatched again. When
  the worker has submitted metrics as \<^verbatim>\<open>process_chunk\<close> builds them, the recovery
  raises \<^verbatim>\<open>KeyError\<close>, the results having been removed. When it has submitted a result
  that names the file, the whole file is distributed again: chunks 1 and 2, which are
  the chunks of the other two workers, are requested once more, and chunk 0 is assigned
  to the worker that is down and not requested.
\<close>

theorem handle_worker_failure_misses_pending_chunk:
  "sent worker1_down = [chunk0_request, chunk1_request, chunk2_request] \<and>
   assigned_worker (map fst (workers worker1_down)) 0 = ''worker1'' \<and>
   \<not> is_healthy worker1_down ''worker1'' \<and>
   handle_worker_failure test_world worker1_down ''worker1'' = Inr worker1_down \<and>
   handle_worker_failure test_world
       (worker1_down\<lparr>results := [(''worker1'', ResultList [chunk_metrics])]\<rparr>) ''worker1''
     = Inl (KeyError ''filepath'', worker1_down) \<and>
   handle_worker_failure test_world
       (worker1_down\<lparr>results := [(''worker1'', ResultList [named_result])]\<rparr>) ''worker1''
     = Inr (worker1_down\<lparr>sent := [chunk0_request, chunk1_request, chunk2_request,
                                    chunk1_request, chunk2_request]\<rparr>)"
proof -
  have unchanged: "handle_worker_failure test_world worker1_down ''worker1'' = Inr worker1_down"
    by (simp add: handle_worker_failure_def worker1_down_eq dict_pop_def test_world_simps)
  have same: "worker1_down\<lparr>sent := [chunk0_request, chunk1_request, chunk2_request]\<rparr>
                = worker1_down"
    by (simp add: worker1_down_eq)
  have raised: "handle_worker_failure test_world
       (worker1_down\<lparr>results := [(''worker1'', ResultList [chunk_metrics])]\<rparr>) ''worker1''
     = Inl (KeyError ''filepath'', worker1_down)"
    by (simp add: handle_worker_failure_def pop_worker1 same chunk_metrics_def test_world_simps)
  have others: "handle_worker_failure test_world
       (worker1_down\<lparr>results := [(''worker1'', ResultList [named_result])]\<rparr>) ''worker1''
     = Inr (worker1_down\<lparr>sent := [chunk0_request, chunk1_request, chunk2_request,
                                    chunk1_request, chunk2_request]\<rparr>)"
    by (simp add: handle_worker_failure_def pop_worker1 named_result_filepath
        redistribute_worker1_down test_world_simps)
  have "sent worker1_down = [chunk0_request, chunk1_request, chunk2_request]"
    and "assigned_worker (map fst (workers worker1_down)) 0 = ''worker1''"
    and "\<not> is_healthy worker1_down ''worker1''"
    by (simp_all add: worker1_down_eq is_healthy_def assigned_worker_def)
  then show ?thesis using unchanged raised others by blast
qed

text \<open>
  Claim C5 fails on the code. The first worker is down and three results that name the
  file are stored for it: the recovery runs three rounds. In every round chunk 0, the
  chunk of the worker that is down, is assigned to that worker again and not
  requested; it is never given to another worker, no attempt is counted and nothing
  marks the chunk as failed: the state after the recovery is the state in which the
  worker went down with more requests posted, the store is empty, and the result of
  \<^verbatim>\<open>process_file\<close> is the aggregate it always returns, with no failed chunk in it.
  Chunks 1 and 2 have been requested four times each.
\<close>

theorem failed_chunk_never_reassigned_nor_reported:
  "handle_worker_failure test_world
      (worker1_down\<lparr>results := [(''worker1'', ResultList [named_result, named_result, named_result])]\<rparr>)
      ''worker1''
     = Inr (worker1_down
             \<lparr>sent := [chunk0_request, chunk1_request, chunk2_request,
                       chunk1_request, chunk2_request,
                       chunk1_request, chunk2_request,
                       chunk1_request, chunk2_request]\<rparr>) \<and>
   results worker1_down = [] \<and>
   workers worker1_down = [(''worker1'', PStr ''unhealthy''), (''worker2'', PStr ''healthy''),
                            (''worker3'', PStr ''healthy'')] \<and>
   snd (process_file
          (worker1_down
             \<lparr>sent := [chunk0_request, chunk1_request, chunk2_request,
                       chunk1_request, chunk2_request,
                       chunk1_request, chunk2_request,
                       chunk1_request, chunk2_request]\<rparr>) normal_log)
     = \<lparr>total_requests = 3000, malformed_lines = 30, error_count = 0, avg_response_time = 109\<rparr>"
proof -
  have run: "handle_worker_failure test_world
      (worker1_down\<lparr>results := [(''worker1'', ResultList [named_result, named_result, named_result])]\<rparr>)
      ''worker1''
     = Inr (worker1_down
             \<lparr>sent := [chunk0_request, chunk1_request, chunk2_request,
                       chunk1_request, chunk2_request,
                       chunk1_request, chunk2_request,
                       chunk1_request, chunk2_request]\<rparr>)"
    by (simp add: handle_worker_failure_def pop_worker1 named_result_filepath
        redistribute_worker1_down test_world_simps)
  have "results worker1_down = []"
    and "workers worker1_down = [(''worker1'', PStr ''unhealthy''), (''worker2'', PStr ''healthy''),
                            (''worker3'', PStr ''healthy'')]"
    by (simp_all add: worker1_down_eq)
  then show ?thesis
    using run by (simp add: process_file_result aggregate_worker_results)
qed

end
